theory Spec2Isabelle
  imports Complex_Main "HOL-Library.Char_ord" "HOL-Library.List_Lexorder"
    "HOL-Library.Product_Lexorder" "HOL-Library.Multiset"
begin

section \<open>Numbers and errors\<close>

text \<open>
  A float64 cell of a pandas column is modelled as an exact rational or the one value
  NaN. Rounding, overflow, infinities and the sign of zero are not modelled: every sum,
  difference and quotient below is the exact one.
\<close>

datatype f64 = Fin rat | NaN

datatype error = ValueError | AmbiguousTimeError | IndexError

text \<open>IEEE comparison \<open>x != y\<close>: true as soon as one side is NaN.\<close>

fun f_ne :: "f64 \<Rightarrow> f64 \<Rightarrow> bool" where
  "f_ne (Fin x) (Fin y) = (x \<noteq> y)"
| "f_ne _ _ = True"

text \<open>
  IEEE division \<open>x / y\<close>. A NaN operand gives NaN. The quotient by zero (an infinity
  or NaN in IEEE) is given as NaN here; \<open>safe_div\<close> never computes it.
\<close>

fun f_div :: "f64 \<Rightarrow> f64 \<Rightarrow> f64" where
  "f_div (Fin x) (Fin y) = (if y = 0 then NaN else Fin (x / y))"
| "f_div _ _ = NaN"

section \<open>safe_div\<close>

text \<open>\<open>xs[mask]\<close>: the elements of \<open>xs\<close> where the boolean mask is set.\<close>

fun np_select :: "'a list \<Rightarrow> bool list \<Rightarrow> 'a list" where
  "np_select (x # xs) (m # ms) = (if m then x # np_select xs ms else np_select xs ms)"
| "np_select _ _ = []"

text \<open>\<open>out[mask] = vs\<close>: the masked positions of \<open>out\<close> take the values in order.\<close>

fun np_assign :: "'a list \<Rightarrow> bool list \<Rightarrow> 'a list \<Rightarrow> 'a list" where
  "np_assign (x # out) (True # ms) (v # vs) = v # np_assign out ms vs"
| "np_assign (x # out) (False # ms) vs = x # np_assign out ms vs"
| "np_assign out _ _ = out"

text \<open>
  \<^verbatim>\<open>
  def safe_div(a, b):
      a = np.asarray(a, dtype="float64")
      b = np.asarray(b, dtype="float64")
      out = np.full_like(a, np.nan, dtype="float64")
      mask = b != 0
      out[mask] = a[mask] / b[mask]
      return out
  \<close>
  on one-dimensional arrays. A mask whose length differs from the array it indexes
  makes numpy raise IndexError.
\<close>

definition safe_div :: "f64 list \<Rightarrow> f64 list \<Rightarrow> error + f64 list" where
  "safe_div a b =
     (let out = replicate (length a) NaN;
          mask = map (\<lambda>y. f_ne y (Fin 0)) b
      in if length mask \<noteq> length a then Inl IndexError
         else Inr (np_assign out mask (map2 f_div (np_select a mask) (np_select b mask))))"

text \<open>What \<open>safe_div\<close> computes at one position.\<close>

definition safe_div1 :: "f64 \<Rightarrow> f64 \<Rightarrow> f64" where
  "safe_div1 x y = (if f_ne y (Fin 0) then f_div x y else NaN)"

section \<open>Tables\<close>

text \<open>
  A DataFrame is the list of its rows, a row a record of its cells. A cell that pandas
  holds as missing (NA, NaN) is \<open>None\<close>. Instants are whole minutes since
  1970-01-01 00:00 UTC (the feeds' timestamps have no seconds); \<open>dt.floor("D")\<close> and
  \<open>dt.floor("h")\<close> round down to a multiple of a day and of an hour.
\<close>

definition floor_D :: "int \<Rightarrow> int" where
  "floor_D t = t - t mod 1440"

definition floor_h :: "int \<Rightarrow> int" where
  "floor_h t = t - t mod 60"

text \<open>The cost feed after numeric casting and \<open>parse_est_to_utc\<close>.\<close>

record cost_row =
  c_campaign_id :: "string option"
  c_campaign_name :: "string option"
  c_clicks :: rat
  c_cost :: rat
  c_dt_utc :: int
  c_date_utc :: int
  c_hour_utc :: int

text \<open>The revenue feed after numeric casting and \<open>parse_est_to_utc\<close>.\<close>

record rev_row =
  r_campaign_id :: "string option"
  r_revenue :: rat
  r_dt_utc :: int
  r_date_utc :: int
  r_hour_utc :: int

subsection \<open>groupby\<close>

text \<open>
  \<open>df.groupby(keys)\<close> with pandas' defaults: a row with a missing key cell belongs to
  no group (\<open>dropna=True\<close>), and the groups come in ascending key order
  (\<open>sort=True\<close>), strings compared by code point.
\<close>

definition group_keys :: "('r \<Rightarrow> 'k::linorder option) \<Rightarrow> 'r list \<Rightarrow> 'k list" where
  "group_keys key rows = sort (remdups (List.map_filter key rows))"

definition group_rows :: "('r \<Rightarrow> 'k option) \<Rightarrow> 'r list \<Rightarrow> 'k \<Rightarrow> 'r list" where
  "group_rows key rows k = filter (\<lambda>r. key r = Some k) rows"

definition groupby_agg ::
  "('r \<Rightarrow> 'k::linorder option) \<Rightarrow> ('k \<Rightarrow> 'r list \<Rightarrow> 'a) \<Rightarrow> 'r list \<Rightarrow> 'a list" where
  "groupby_agg key agg rows = map (\<lambda>k. agg k (group_rows key rows k)) (group_keys key rows)"

text \<open>The \<open>"min"\<close> reducer on a string column: missing cells are skipped, and a group
  with no value at all gives a missing cell.\<close>

definition min_skipna :: "string option list \<Rightarrow> string option" where
  "min_skipna xs = (case List.map_filter id xs of [] \<Rightarrow> None | y # ys \<Rightarrow> Some (fold min ys y))"

text \<open>The \<open>"mean"\<close> reducer on a group (a group is never empty).\<close>

definition mean :: "rat list \<Rightarrow> rat" where
  "mean xs = sum_list xs / of_nat (length xs)"

subsection \<open>merge\<close>

text \<open>
  \<open>pd.merge(left, right, on=keys, how="outer")\<close>: the keys of both frames in ascending
  order; under each key every pairing of a left row with a right row of that key, or the
  rows of the one side that has the key, the other side's cells missing.
\<close>

definition merge_outer ::
  "('a \<Rightarrow> 'k::linorder) \<Rightarrow> ('b \<Rightarrow> 'k) \<Rightarrow> 'a list \<Rightarrow> 'b list \<Rightarrow> ('k \<times> 'a option \<times> 'b option) list" where
  "merge_outer kl kr L R =
     concat (map (\<lambda>k.
        let ls = filter (\<lambda>l. kl l = k) L; rs = filter (\<lambda>r. kr r = k) R
        in if rs = [] then map (\<lambda>l. (k, Some l, None)) ls
           else if ls = [] then map (\<lambda>r. (k, None, Some r)) rs
           else concat (map (\<lambda>l. map (\<lambda>r. (k, Some l, Some r)) rs) ls))
       (sort (remdups (map kl L @ map kr R))))"

text \<open>
  \<open>left.merge(right, on=keys, how="left")\<close>: the left rows in their order, each paired
  with every right row of its key, or once with missing cells when there is none.
\<close>

definition merge_left ::
  "('a \<Rightarrow> 'k) \<Rightarrow> ('b \<Rightarrow> 'k) \<Rightarrow> 'a list \<Rightarrow> 'b list \<Rightarrow> ('a \<times> 'b option) list" where
  "merge_left kl kr L R =
     concat (map (\<lambda>l.
        let rs = filter (\<lambda>r. kr r = kl l) R
        in if rs = [] then [(l, None)] else map (\<lambda>r. (l, Some r)) rs) L)"

text \<open>\<open>column.fillna(v)\<close> on one cell.\<close>

definition fillna :: "'a \<Rightarrow> 'a option \<Rightarrow> 'a" where
  "fillna v c = (case c of None \<Rightarrow> v | Some x \<Rightarrow> x)"

section \<open>The report\<close>

subsection \<open>Step 4: the date window\<close>

definition filter_cost :: "int \<Rightarrow> int \<Rightarrow> cost_row list \<Rightarrow> cost_row list" where
  "filter_cost d_from d_to cost = filter (\<lambda>r. c_date_utc r \<ge> d_from \<and> c_date_utc r \<le> d_to) cost"

definition filter_rev :: "int \<Rightarrow> int \<Rightarrow> rev_row list \<Rightarrow> rev_row list" where
  "filter_rev d_from d_to rv = filter (\<lambda>r. r_date_utc r \<ge> d_from \<and> r_date_utc r \<le> d_to) rv"

subsection \<open>Step 5: daily aggregates\<close>

record cost_daily_row =
  cd_date_utc :: int
  cd_campaign_id :: string
  cd_campaign_name :: "string option"
  cd_total_cost :: rat
  cd_total_clicks :: rat

record rev_daily_row =
  rd_date_utc :: int
  rd_campaign_id :: string
  rd_total_revenue :: rat

definition cost_day_key :: "cost_row \<Rightarrow> (int \<times> string) option" where
  "cost_day_key r = map_option (\<lambda>c. (c_date_utc r, c)) (c_campaign_id r)"

definition rev_day_key :: "rev_row \<Rightarrow> (int \<times> string) option" where
  "rev_day_key r = map_option (\<lambda>c. (r_date_utc r, c)) (r_campaign_id r)"

definition cost_daily :: "cost_row list \<Rightarrow> cost_daily_row list" where
  "cost_daily cost =
     groupby_agg cost_day_key
       (\<lambda>k g. \<lparr>cd_date_utc = fst k, cd_campaign_id = snd k,
                cd_campaign_name = min_skipna (map c_campaign_name g),
                cd_total_cost = sum_list (map c_cost g),
                cd_total_clicks = sum_list (map c_clicks g)\<rparr>) cost"

definition rev_daily :: "rev_row list \<Rightarrow> rev_daily_row list" where
  "rev_daily rv =
     groupby_agg rev_day_key
       (\<lambda>k g. \<lparr>rd_date_utc = fst k, rd_campaign_id = snd k,
                rd_total_revenue = sum_list (map r_revenue g)\<rparr>) rv"

subsection \<open>Step 6: the outer join and its defaults\<close>

record joined_row =
  j_date_utc :: int
  j_campaign_id :: string
  j_campaign_name :: string
  j_total_cost :: rat
  j_total_clicks :: rat
  j_total_revenue :: rat

definition cd_key :: "cost_daily_row \<Rightarrow> int \<times> string" where
  "cd_key a = (cd_date_utc a, cd_campaign_id a)"

definition rd_key :: "rev_daily_row \<Rightarrow> int \<times> string" where
  "rd_key b = (rd_date_utc b, rd_campaign_id b)"

definition fill_joined :: "(int \<times> string) \<times> cost_daily_row option \<times> rev_daily_row option \<Rightarrow> joined_row" where
  "fill_joined m =
     (case m of (k, l, r) \<Rightarrow>
        \<lparr>j_date_utc = fst k, j_campaign_id = snd k,
         j_campaign_name = fillna [] (Option.bind l cd_campaign_name),
         j_total_cost = fillna 0 (map_option cd_total_cost l),
         j_total_clicks = fillna 0 (map_option cd_total_clicks l),
         j_total_revenue = fillna 0 (map_option rd_total_revenue r)\<rparr>)"

definition reconcile :: "cost_daily_row list \<Rightarrow> rev_daily_row list \<Rightarrow> joined_row list" where
  "reconcile cd rd = map fill_joined (merge_outer cd_key rd_key cd rd)"

subsection \<open>Step 7: profit, cost per click, ROI\<close>

record report_row =
  rp_date_utc :: int
  rp_campaign_id :: string
  rp_campaign_name :: string
  rp_total_cost :: rat
  rp_total_clicks :: rat
  rp_total_revenue :: rat
  rp_total_profit :: rat
  rp_avg_cpc :: f64
  rp_total_roi :: f64

definition bind_e :: "error + 'a \<Rightarrow> ('a \<Rightarrow> error + 'b) \<Rightarrow> error + 'b" where
  "bind_e m f = (case m of Inl e \<Rightarrow> Inl e | Inr x \<Rightarrow> f x)"

definition add_metrics :: "joined_row \<Rightarrow> f64 \<times> f64 \<Rightarrow> report_row" where
  "add_metrics j m =
     \<lparr>rp_date_utc = j_date_utc j, rp_campaign_id = j_campaign_id j,
      rp_campaign_name = j_campaign_name j, rp_total_cost = j_total_cost j,
      rp_total_clicks = j_total_clicks j, rp_total_revenue = j_total_revenue j,
      rp_total_profit = j_total_revenue j - j_total_cost j,
      rp_avg_cpc = fst m, rp_total_roi = snd m\<rparr>"

definition calculations :: "joined_row list \<Rightarrow> error + report_row list" where
  "calculations report =
     (let revenue = map (\<lambda>j. Fin (j_total_revenue j)) report;
          cost = map (\<lambda>j. Fin (j_total_cost j)) report;
          clicks = map (\<lambda>j. Fin (j_total_clicks j)) report
      in bind_e (safe_div cost clicks) (\<lambda>avg_cpc_col.
         bind_e (safe_div revenue clicks) (\<lambda>uv.
         bind_e (safe_div cost clicks) (\<lambda>cpc.
         bind_e (safe_div uv cpc) (\<lambda>roi_col.
           Inr (map2 add_metrics report (zip avg_cpc_col roi_col)))))))"

subsection \<open>Step 8: the hourly columns\<close>

record cost_h_row =
  ch_date_utc :: int
  ch_hour_utc :: int
  ch_campaign_id :: string
  ch_cost :: rat

record rev_h_row =
  rh_date_utc :: int
  rh_hour_utc :: int
  rh_campaign_id :: string
  rh_revenue :: rat

record h_row =
  h_date_utc :: int
  h_hour_utc :: int
  h_campaign_id :: string
  h_cost :: rat
  h_revenue :: rat
  h_profit :: rat

definition cost_hour_key :: "cost_row \<Rightarrow> (int \<times> int \<times> string) option" where
  "cost_hour_key r = map_option (\<lambda>c. (c_date_utc r, c_hour_utc r, c)) (c_campaign_id r)"

definition rev_hour_key :: "rev_row \<Rightarrow> (int \<times> int \<times> string) option" where
  "rev_hour_key r = map_option (\<lambda>c. (r_date_utc r, r_hour_utc r, c)) (r_campaign_id r)"

definition cost_h :: "cost_row list \<Rightarrow> cost_h_row list" where
  "cost_h cost =
     groupby_agg cost_hour_key
       (\<lambda>k g. \<lparr>ch_date_utc = fst k, ch_hour_utc = fst (snd k), ch_campaign_id = snd (snd k),
                ch_cost = sum_list (map c_cost g)\<rparr>) cost"

definition rev_h :: "rev_row list \<Rightarrow> rev_h_row list" where
  "rev_h rv =
     groupby_agg rev_hour_key
       (\<lambda>k g. \<lparr>rh_date_utc = fst k, rh_hour_utc = fst (snd k), rh_campaign_id = snd (snd k),
                rh_revenue = sum_list (map r_revenue g)\<rparr>) rv"

definition ch_key :: "cost_h_row \<Rightarrow> int \<times> int \<times> string" where
  "ch_key a = (ch_date_utc a, ch_hour_utc a, ch_campaign_id a)"

definition rh_key :: "rev_h_row \<Rightarrow> int \<times> int \<times> string" where
  "rh_key b = (rh_date_utc b, rh_hour_utc b, rh_campaign_id b)"

text \<open>A row of \<open>h\<close>: the hourly outer join, \<open>fillna(0.0)\<close>, and the profit column.\<close>

definition fill_h :: "(int \<times> int \<times> string) \<times> cost_h_row option \<times> rev_h_row option \<Rightarrow> h_row" where
  "fill_h m =
     (case m of (k, l, r) \<Rightarrow>
        let cost = fillna 0 (map_option ch_cost l);
            revenue = fillna 0 (map_option rh_revenue r)
        in \<lparr>h_date_utc = fst k, h_hour_utc = fst (snd k), h_campaign_id = snd (snd k),
            h_cost = cost, h_revenue = revenue, h_profit = revenue - cost\<rparr>)"

definition h_join :: "cost_row list \<Rightarrow> rev_row list \<Rightarrow> h_row list" where
  "h_join cost rv = map fill_h (merge_outer ch_key rh_key (cost_h cost) (rev_h rv))"

definition h_day_key :: "h_row \<Rightarrow> int \<times> string" where
  "h_day_key x = (h_date_utc x, h_campaign_id x)"

definition pos_hours :: "h_row list \<Rightarrow> ((int \<times> string) \<times> nat) list" where
  "pos_hours h =
     groupby_agg (\<lambda>x. Some (h_day_key x)) (\<lambda>k g. (k, length g)) (filter (\<lambda>x. h_profit x > 0) h)"

definition avg_hourly_rev :: "h_row list \<Rightarrow> ((int \<times> string) \<times> rat) list" where
  "avg_hourly_rev h =
     groupby_agg (\<lambda>x. Some (h_day_key x)) (\<lambda>k g. (k, mean (map h_revenue g))) h"

definition rp_key :: "report_row \<Rightarrow> int \<times> string" where
  "rp_key r = (rp_date_utc r, rp_campaign_id r)"

text \<open>
  The two left merges and the two \<open>fillna\<close>: each report row with its
  \<open>positive_profit_hours\<close> and its \<open>hourly_avg_revenue\<close>.
\<close>

definition hourly_columns ::
  "cost_row list \<Rightarrow> rev_row list \<Rightarrow> report_row list \<Rightarrow> (report_row \<times> int \<times> rat) list" where
  "hourly_columns cost rv report =
     (let h = h_join cost rv;
          m1 = merge_left rp_key fst report (pos_hours h);
          m2 = merge_left (\<lambda>x. rp_key (fst x)) fst m1 (avg_hourly_rev h)
      in map (\<lambda>((r, p), a). (r, int (fillna 0 (map_option snd p)), fillna 0 (map_option snd a))) m2)"

subsection \<open>Step 9: the output table\<close>

text \<open>
  The proleptic Gregorian calendar: the day number of a civil date (days since
  1970-01-01) and back. They stand for the date arithmetic of pandas' Timestamp, which
  is not part of the repository.
\<close>

definition days_from_civil :: "int \<Rightarrow> int \<Rightarrow> int \<Rightarrow> int" where
  "days_from_civil y m d =
     (let y' = (if m \<le> 2 then y - 1 else y);
          era = y' div 400;
          yoe = y' mod 400;
          doy = (153 * (if m > 2 then m - 3 else m + 9) + 2) div 5 + d - 1;
          doe = yoe * 365 + yoe div 4 - yoe div 100 + doy
      in era * 146097 + doe - 719468)"

definition civil_from_days :: "int \<Rightarrow> int \<times> int \<times> int" where
  "civil_from_days z =
     (let z' = z + 719468;
          era = z' div 146097;
          doe = z' mod 146097;
          yoe = (doe - doe div 1460 + doe div 36524 - doe div 146096) div 365;
          doy = doe - (365 * yoe + yoe div 4 - yoe div 100);
          mp = (5 * doy + 2) div 153;
          d = doy - (153 * mp + 2) div 5 + 1;
          m = (if mp < 10 then mp + 3 else mp - 9);
          y = yoe + era * 400 + (if m \<le> 2 then 1 else 0)
      in (y, m, d))"

definition digit_char :: "int \<Rightarrow> char" where
  "digit_char n = ''0123456789'' ! nat (n mod 10)"

definition digits2 :: "int \<Rightarrow> string" where
  "digits2 n = [digit_char (n div 10), digit_char n]"

definition digits4 :: "int \<Rightarrow> string" where
  "digits4 n = [digit_char (n div 1000), digit_char (n div 100), digit_char (n div 10), digit_char n]"

text \<open>\<open>dt.strftime("%Y/%m/%d")\<close> of an instant (for years 0 to 9999).\<close>

definition strftime_date :: "int \<Rightarrow> string" where
  "strftime_date t =
     (case civil_from_days (t div 1440) of
        (y, m, d) \<Rightarrow> digits4 y @ ''/'' @ digits2 m @ ''/'' @ digits2 d)"

text \<open>A row of the written table. The two hourly columns exist with \<open>--hourly\<close> only.\<close>

record out_row =
  date :: string
  campaign_id :: string
  campaign_name :: string
  total_revenue :: rat
  total_cost :: rat
  total_profit :: rat
  total_clicks :: rat
  total_roi :: f64
  avg_cpc :: f64
  hourly_avg_revenue :: "rat option"
  positive_profit_hours :: "int option"

definition format_row :: "report_row \<times> (int \<times> rat) option \<Rightarrow> out_row" where
  "format_row x =
     (case x of (r, e) \<Rightarrow>
        \<lparr>date = strftime_date (rp_date_utc r), campaign_id = rp_campaign_id r,
         campaign_name = rp_campaign_name r, total_revenue = rp_total_revenue r,
         total_cost = rp_total_cost r, total_profit = rp_total_profit r,
         total_clicks = rp_total_clicks r, total_roi = rp_total_roi r,
         avg_cpc = rp_avg_cpc r,
         hourly_avg_revenue = map_option snd e,
         positive_profit_hours = map_option fst e\<rparr>)"

text \<open>
  Steps 4 to 9 of \<open>main\<close>, on the two feeds as \<open>parse_est_to_utc\<close> returns them.
  \<open>date_from\<close> and \<open>date_to\<close> are the instants \<open>pd.Timestamp(args.date_from, tz="UTC")\<close>
  and \<open>pd.Timestamp(args.date_to, tz="UTC")\<close>.
\<close>

definition build_report ::
  "bool \<Rightarrow> int \<Rightarrow> int \<Rightarrow> cost_row list \<Rightarrow> rev_row list \<Rightarrow> error + out_row list" where
  "build_report with_hourly date_from date_to cost0 rev0 =
     (let d_from = floor_D date_from;
          d_to = floor_D date_to;
          cost = filter_cost d_from d_to cost0;
          rv = filter_rev d_from d_to rev0;
          joined = reconcile (cost_daily cost) (rev_daily rv)
      in bind_e (calculations joined) (\<lambda>report.
           let rows = (if with_hourly
                       then map (\<lambda>(r, e). (r, Some e)) (hourly_columns cost rv report)
                       else map (\<lambda>r. (r, None)) report)
           in Inr (sort_key (\<lambda>x. (date x, campaign_id x)) (map format_row rows))))"

section \<open>Reading the feeds\<close>

subsection \<open>Steps 1 and 2: the rows as read, numeric casting\<close>

text \<open>
  A row of each feed as \<open>read_csv\<close> returns it. A numeric cell is the number it holds,
  or \<open>None\<close> when it is empty or not a number: \<open>pd.to_numeric(errors="coerce")\<close> turns
  that into NaN and \<open>fillna(0.0)\<close> into zero. A missing \<open>campaign_id\<close> or
  \<open>campaign_name\<close> cell is \<open>None\<close>. The \<open>data_date\<close> cell is its text; a feed with a
  missing \<open>data_date\<close> cell is not modelled.
\<close>

record cost_csv =
  csv_campaign_id :: "string option"
  csv_campaign_name :: "string option"
  csv_clicks :: "rat option"
  csv_cost :: "rat option"
  csv_data_date :: string

record rev_csv =
  rcsv_campaign_id :: "string option"
  rcsv_revenue :: "rat option"
  rcsv_data_date :: string

subsection \<open>Step 3: Eastern Time to UTC\<close>

text \<open>
  \<open>pd.to_datetime(col, format="%m/%d/%y %H:%M", errors="raise")\<close>. The fields of the
  format are those of pandas' strptime: month, day, hour and minute of one or two digits
  (the day also as a blank and a digit), a year of two digits, at least one blank between
  date and time, and nothing after the minute. A two-digit year up to 68 is in the 2000s,
  from 69 on in the 1900s. The result is the wall-clock time in minutes since 1970-01-01
  00:00. Only ASCII digits and blanks are modelled.
\<close>

definition is_digit :: "char \<Rightarrow> bool" where
  "is_digit c = (CHR ''0'' \<le> c \<and> c \<le> CHR ''9'')"

definition is_space :: "char \<Rightarrow> bool" where
  "is_space c = (c \<in> set [CHR '' '', CHR 0x09, CHR 0x0A, CHR 0x0B, CHR 0x0C, CHR 0x0D])"

definition num :: "string \<Rightarrow> int" where
  "num s = fold (\<lambda>c n. 10 * n + (int (of_char c) - 48)) s 0"

definition field_ok :: "int \<Rightarrow> int \<Rightarrow> string \<Rightarrow> bool" where
  "field_ok lo hi s = (s \<noteq> [] \<and> length s \<le> 2 \<and> list_all is_digit s \<and> lo \<le> num s \<and> num s \<le> hi)"

definition day_field :: "string \<Rightarrow> int option" where
  "day_field s =
     (if field_ok 1 31 s then Some (num s)
      else if length s = 2 \<and> hd s = CHR '' '' \<and> field_ok 1 9 (tl s) then Some (num (tl s))
      else None)"

definition split_at :: "char \<Rightarrow> string \<Rightarrow> (string \<times> string) option" where
  "split_at c s =
     (if c \<in> set s then Some (takeWhile (\<lambda>x. x \<noteq> c) s, tl (dropWhile (\<lambda>x. x \<noteq> c) s))
      else None)"

definition is_leap :: "int \<Rightarrow> bool" where
  "is_leap y = (y mod 4 = 0 \<and> (y mod 100 \<noteq> 0 \<or> y mod 400 = 0))"

definition days_in_month :: "int \<Rightarrow> int \<Rightarrow> int" where
  "days_in_month y m =
     (if m = 2 then (if is_leap y then 29 else 28)
      else if m \<in> set [4, 6, 9, 11] then 30 else 31)"

definition strptime :: "string \<Rightarrow> int option" where
  "strptime s =
     (case split_at (CHR ''/'') s of None \<Rightarrow> None | Some (ms, s1) \<Rightarrow>
      case split_at (CHR ''/'') s1 of None \<Rightarrow> None | Some (ds, s2) \<Rightarrow>
      case split_at (CHR '':'') (dropWhile is_space (drop 2 s2)) of None \<Rightarrow> None
      | Some (hs, mins) \<Rightarrow>
      case day_field ds of None \<Rightarrow> None | Some d \<Rightarrow>
        let ys = take 2 s2;
            y = (if num ys \<le> 68 then 2000 + num ys else 1900 + num ys);
            m = num ms
        in if field_ok 1 12 ms \<and> length ys = 2 \<and> list_all is_digit ys
              \<and> drop 2 s2 \<noteq> [] \<and> is_space (hd (drop 2 s2))
              \<and> field_ok 0 23 hs \<and> field_ok 0 59 mins \<and> d \<le> days_in_month y m
           then Some (days_from_civil y m d * 1440 + num hs * 60 + num mins)
           else None)"

fun to_datetime :: "string list \<Rightarrow> error + int list" where
  "to_datetime [] = Inr []"
| "to_datetime (s # col) =
     (case strptime s of None \<Rightarrow> Inl ValueError
      | Some t \<Rightarrow> (case to_datetime col of Inl e \<Rightarrow> Inl e | Inr ts \<Rightarrow> Inr (t # ts)))"

text \<open>
  Modelled from the spec: \<open>tz_localize("America/New_York", ambiguous="infer",
  nonexistent="shift_forward")\<close> followed by \<open>tz_convert("UTC")\<close> is pandas with the tz
  database, neither of them in the repository. The zone's rules from 1967 on (every
  year the two-digit format can name): standard time is UTC-5, daylight time UTC-4;
  daylight time starts at 02:00 standard time (07:00 UTC) and ends at 02:00 daylight
  time (06:00 UTC) on the Sundays given below.
\<close>

definition sunday_on_or_after :: "int \<Rightarrow> int" where
  "sunday_on_or_after d = d + (3 - d) mod 7"

definition dst_start_day :: "int \<Rightarrow> int" where
  "dst_start_day y =
     (if y \<ge> 2007 then sunday_on_or_after (days_from_civil y 3 8)
      else if y \<ge> 1987 then sunday_on_or_after (days_from_civil y 4 1)
      else if y \<ge> 1976 then sunday_on_or_after (days_from_civil y 4 24)
      else if y = 1975 then days_from_civil 1975 2 23
      else if y = 1974 then days_from_civil 1974 1 6
      else sunday_on_or_after (days_from_civil y 4 24))"

definition dst_end_day :: "int \<Rightarrow> int" where
  "dst_end_day y =
     (if y \<ge> 2007 then sunday_on_or_after (days_from_civil y 11 1)
      else sunday_on_or_after (days_from_civil y 10 25))"

text \<open>Whether daylight time is in force at a UTC instant.\<close>

definition is_dst :: "int \<Rightarrow> bool" where
  "is_dst u =
     (let y = fst (civil_from_days (u div 1440))
      in dst_start_day y * 1440 + 420 \<le> u \<and> u < dst_end_day y * 1440 + 360)"

text \<open>
  A wall-clock time read as daylight time is the instant 240 minutes later, read as
  standard time 300 minutes later. It is ambiguous when both readings are valid (the
  hour after the fall-back), nonexistent when neither is (the hour of the spring-forward
  gap).
\<close>

definition is_ambiguous :: "int \<Rightarrow> bool" where
  "is_ambiguous v = (is_dst (v + 240) \<and> \<not> is_dst (v + 300))"

definition is_nonexistent :: "int \<Rightarrow> bool" where
  "is_nonexistent v = (\<not> is_dst (v + 240) \<and> is_dst (v + 300))"

text \<open>
  A time that is not ambiguous. \<open>shift_forward\<close> moves a nonexistent time to the next
  full hour, read as daylight time.
\<close>

definition localize1 :: "int \<Rightarrow> int" where
  "localize1 v =
     (if is_nonexistent v then (v + (60 - v mod 60)) + 240
      else if is_dst (v + 240) then v + 240
      else v + 300)"

text \<open>
  \<open>ambiguous="infer"\<close> on one run of consecutive ambiguous rows: the wall-clock times
  must step back or repeat exactly once; the rows before that are daylight time, the
  rows from there on standard time. A run of one row, a run that only increases, and a
  run with more than one such step raise AmbiguousTimeError.
\<close>

definition infer_block :: "int list \<Rightarrow> error + int list" where
  "infer_block vals =
     (let delta = map2 (\<lambda>a b. b - a) vals (tl vals);
          switch_idxs = filter (\<lambda>i. delta ! i \<le> 0) [0..<length delta]
      in if length vals = 1 \<or> list_all (\<lambda>d. d > 0) delta then Inl AmbiguousTimeError
         else if length switch_idxs > 1 then Inl AmbiguousTimeError
         else let switch_idx = hd switch_idxs + 1
              in Inr (map (\<lambda>v. v + 240) (take switch_idx vals)
                      @ map (\<lambda>v. v + 300) (drop switch_idx vals)))"

function tz_localize :: "int list \<Rightarrow> error + int list" where
  "tz_localize [] = Inr []"
| "tz_localize (v # vs) =
     (if is_ambiguous v
      then (case infer_block (takeWhile is_ambiguous (v # vs)) of Inl e \<Rightarrow> Inl e
            | Inr block \<Rightarrow>
              (case tz_localize (dropWhile is_ambiguous vs) of Inl e \<Rightarrow> Inl e
               | Inr rest \<Rightarrow> Inr (block @ rest)))
      else (case tz_localize vs of Inl e \<Rightarrow> Inl e
            | Inr rest \<Rightarrow> Inr (localize1 v # rest)))"
  by pat_completeness auto
termination
  by (relation "measure length") (auto simp: length_dropWhile_le less_Suc_eq_le)

definition est_to_utc :: "string list \<Rightarrow> error + int list" where
  "est_to_utc col = bind_e (to_datetime col) tz_localize"

text \<open>
  \<open>parse_est_to_utc\<close> on the cost feed and on the revenue feed, with the numeric
  casting of step 2.
\<close>

definition cost_row_of :: "cost_csv \<Rightarrow> int \<Rightarrow> cost_row" where
  "cost_row_of x dt =
     \<lparr>c_campaign_id = csv_campaign_id x, c_campaign_name = csv_campaign_name x,
      c_clicks = fillna 0 (csv_clicks x), c_cost = fillna 0 (csv_cost x),
      c_dt_utc = dt, c_date_utc = floor_D dt, c_hour_utc = floor_h dt\<rparr>"

definition rev_row_of :: "rev_csv \<Rightarrow> int \<Rightarrow> rev_row" where
  "rev_row_of x dt =
     \<lparr>r_campaign_id = rcsv_campaign_id x, r_revenue = fillna 0 (rcsv_revenue x),
      r_dt_utc = dt, r_date_utc = floor_D dt, r_hour_utc = floor_h dt\<rparr>"

definition parse_est_to_utc_cost :: "cost_csv list \<Rightarrow> error + cost_row list" where
  "parse_est_to_utc_cost df =
     bind_e (est_to_utc (map csv_data_date df)) (\<lambda>dt. Inr (map2 cost_row_of df dt))"

definition parse_est_to_utc_rev :: "rev_csv list \<Rightarrow> error + rev_row list" where
  "parse_est_to_utc_rev df =
     bind_e (est_to_utc (map rcsv_data_date df)) (\<lambda>dt. Inr (map2 rev_row_of df dt))"

section \<open>main\<close>

text \<open>
  The command line after \<open>parse_args\<close>: \<open>date_from\<close> and \<open>date_to\<close> as the instants
  \<open>pd.Timestamp(args.date_from, tz="UTC")\<close> and \<open>pd.Timestamp(args.date_to, tz="UTC")\<close>,
  and the \<open>--hourly\<close> flag. \<open>utc_timestamp y m d\<close> is the instant of the argument
  \<open>YYYY-MM-DD\<close>.
\<close>

record args =
  date_from :: int
  date_to :: int
  hourly :: bool

definition utc_timestamp :: "int \<Rightarrow> int \<Rightarrow> int \<Rightarrow> int" where
  "utc_timestamp y m d = days_from_civil y m d * 1440"

text \<open>\<open>main\<close>, from the two tables read to the table written.\<close>

definition main :: "args \<Rightarrow> cost_csv list \<Rightarrow> rev_csv list \<Rightarrow> error + out_row list" where
  "main a cost_in rev_in =
     bind_e (parse_est_to_utc_cost cost_in) (\<lambda>cost.
     bind_e (parse_est_to_utc_rev rev_in) (\<lambda>rv.
       build_report (hourly a) (date_from a) (date_to a) cost rv))"

section \<open>Derived descriptions\<close>

text \<open>The two \<open>safe_div\<close> columns of step 7 at one row: \<open>avg_cpc\<close> and \<open>total_roi\<close>.\<close>

definition metrics :: "joined_row \<Rightarrow> f64 \<times> f64" where
  "metrics j =
     (safe_div1 (Fin (j_total_cost j)) (Fin (j_total_clicks j)),
      safe_div1 (safe_div1 (Fin (j_total_revenue j)) (Fin (j_total_clicks j)))
                (safe_div1 (Fin (j_total_cost j)) (Fin (j_total_clicks j))))"

text \<open>The keys of the daily outer join, and its row for a key after the \<open>fillna\<close>s.\<close>

definition day_keys :: "cost_row list \<Rightarrow> rev_row list \<Rightarrow> (int \<times> string) list" where
  "day_keys cost rv = sort (remdups (group_keys cost_day_key cost @ group_keys rev_day_key rv))"

definition joined_of :: "cost_row list \<Rightarrow> rev_row list \<Rightarrow> int \<times> string \<Rightarrow> joined_row" where
  "joined_of cost rv k =
     \<lparr>j_date_utc = fst k, j_campaign_id = snd k,
      j_campaign_name = fillna [] (min_skipna (map c_campaign_name (group_rows cost_day_key cost k))),
      j_total_cost = sum_list (map c_cost (group_rows cost_day_key cost k)),
      j_total_clicks = sum_list (map c_clicks (group_rows cost_day_key cost k)),
      j_total_revenue = sum_list (map r_revenue (group_rows rev_day_key rv k))\<rparr>"



text \<open>The report after step 7, and the two hourly columns of a report row.\<close>

definition report_rows :: "cost_row list \<Rightarrow> rev_row list \<Rightarrow> report_row list" where
  "report_rows cost rv =
     map (\<lambda>k. add_metrics (joined_of cost rv k) (metrics (joined_of cost rv k))) (day_keys cost rv)"

definition buckets :: "h_row list \<Rightarrow> int \<times> string \<Rightarrow> h_row list" where
  "buckets h k = filter (\<lambda>x. h_day_key x = k) h"

definition hourly_of :: "h_row list \<Rightarrow> int \<times> string \<Rightarrow> int \<times> rat" where
  "hourly_of h k =
     (int (length (filter (\<lambda>x. h_profit x > 0) (buckets h k))),
      if buckets h k = [] then 0 else mean (map h_revenue (buckets h k)))"

text \<open>The output row for a key of the daily join.\<close>

definition out_row_of :: "bool \<Rightarrow> cost_row list \<Rightarrow> rev_row list \<Rightarrow> int \<times> string \<Rightarrow> out_row" where
  "out_row_of wh cost rv k =
     format_row (add_metrics (joined_of cost rv k) (metrics (joined_of cost rv k)),
                 if wh then Some (hourly_of (h_join cost rv) k) else None)"

section \<open>An example run\<close>

text \<open>
  Two feeds used to instantiate the theorems below: campaign A has two cost rows in
  two hours of 2019-01-01 UTC and one revenue row, a third cost row of A lies before the
  window, and campaign B has revenue only, on 2019-01-02 UTC.
\<close>

definition ex_args :: args where
  "ex_args = \<lparr>date_from = utc_timestamp 2019 1 1, date_to = utc_timestamp 2019 1 2, hourly = True\<rparr>"

definition ex_cost :: "cost_csv list" where
  "ex_cost =
     [\<lparr>csv_campaign_id = Some ''A'', csv_campaign_name = Some ''Ads'', csv_clicks = Some 10,
       csv_cost = Some 5, csv_data_date = ''12/31/18 19:00''\<rparr>,
      \<lparr>csv_campaign_id = Some ''A'', csv_campaign_name = Some ''Abs'', csv_clicks = Some 10,
       csv_cost = Some 5, csv_data_date = ''12/31/18 20:00''\<rparr>,
      \<lparr>csv_campaign_id = Some ''A'', csv_campaign_name = Some ''Aaa'', csv_clicks = Some 1,
       csv_cost = Some 1, csv_data_date = ''12/30/18 10:00''\<rparr>]"

definition ex_rev :: "rev_csv list" where
  "ex_rev =
     [\<lparr>rcsv_campaign_id = Some ''A'', rcsv_revenue = Some 20, rcsv_data_date = ''12/31/18 19:00''\<rparr>,
      \<lparr>rcsv_campaign_id = Some ''B'', rcsv_revenue = Some 7, rcsv_data_date = ''01/01/19 19:00''\<rparr>]"

text \<open>The two rows of the table written for the example, and its second revenue row
  after \<open>parse_est_to_utc\<close>.\<close>

definition ex_row_A :: out_row where
  "ex_row_A =
     \<lparr>date = ''2019/01/01'', campaign_id = ''A'', campaign_name = ''Abs'',
      total_revenue = 20, total_cost = 10, total_profit = 10, total_clicks = 20,
      total_roi = Fin 2, avg_cpc = Fin (1 / 2),
      hourly_avg_revenue = Some 10, positive_profit_hours = Some 1\<rparr>"

definition ex_row_B :: out_row where
  "ex_row_B =
     \<lparr>date = ''2019/01/02'', campaign_id = ''B'', campaign_name = [],
      total_revenue = 7, total_cost = 0, total_profit = 7, total_clicks = 0,
      total_roi = NaN, avg_cpc = NaN,
      hourly_avg_revenue = Some 7, positive_profit_hours = Some 1\<rparr>"

definition ex_rev_B :: rev_row where
  "ex_rev_B =
     \<lparr>r_campaign_id = Some ''B'', r_revenue = 7, r_dt_utc = 25773120,
      r_date_utc = 25773120, r_hour_utc = 25773120\<rparr>"

text \<open>The key columns of a row of the daily join.\<close>

definition j_key :: "joined_row \<Rightarrow> int \<times> string" where
  "j_key j = (j_date_utc j, j_campaign_id j)"

text \<open>The rows of the two example feeds after \<open>parse_est_to_utc\<close>, and the tables of the
  example run after steps 5, 6 and 7.\<close>

definition ex_c1 :: cost_row where
  "ex_c1 = \<lparr>c_campaign_id = Some ''A'', c_campaign_name = Some ''Ads'', c_clicks = 10, c_cost = 5,
            c_dt_utc = 25771680, c_date_utc = 25771680, c_hour_utc = 25771680\<rparr>"

definition ex_c2 :: cost_row where
  "ex_c2 = \<lparr>c_campaign_id = Some ''A'', c_campaign_name = Some ''Abs'', c_clicks = 10, c_cost = 5,
            c_dt_utc = 25771740, c_date_utc = 25771680, c_hour_utc = 25771740\<rparr>"

definition ex_c3 :: cost_row where
  "ex_c3 = \<lparr>c_campaign_id = Some ''A'', c_campaign_name = Some ''Aaa'', c_clicks = 1, c_cost = 1,
            c_dt_utc = 25769700, c_date_utc = 25768800, c_hour_utc = 25769700\<rparr>"

definition ex_r1 :: rev_row where
  "ex_r1 = \<lparr>r_campaign_id = Some ''A'', r_revenue = 20, r_dt_utc = 25771680,
            r_date_utc = 25771680, r_hour_utc = 25771680\<rparr>"

definition ex_cd :: "cost_daily_row list" where
  "ex_cd = [\<lparr>cd_date_utc = 25771680, cd_campaign_id = ''A'', cd_campaign_name = Some ''Abs'',
             cd_total_cost = 10, cd_total_clicks = 20\<rparr>]"

definition ex_rd :: "rev_daily_row list" where
  "ex_rd = [\<lparr>rd_date_utc = 25771680, rd_campaign_id = ''A'', rd_total_revenue = 20\<rparr>,
            \<lparr>rd_date_utc = 25773120, rd_campaign_id = ''B'', rd_total_revenue = 7\<rparr>]"

definition ex_jA :: joined_row where
  "ex_jA = \<lparr>j_date_utc = 25771680, j_campaign_id = ''A'', j_campaign_name = ''Abs'',
            j_total_cost = 10, j_total_clicks = 20, j_total_revenue = 20\<rparr>"

definition ex_jB :: joined_row where
  "ex_jB = \<lparr>j_date_utc = 25773120, j_campaign_id = ''B'', j_campaign_name = [],
            j_total_cost = 0, j_total_clicks = 0, j_total_revenue = 7\<rparr>"

definition ex_pA :: report_row where
  "ex_pA = \<lparr>rp_date_utc = 25771680, rp_campaign_id = ''A'', rp_campaign_name = ''Abs'',
            rp_total_cost = 10, rp_total_clicks = 20, rp_total_revenue = 20,
            rp_total_profit = 10, rp_avg_cpc = Fin (1 / 2), rp_total_roi = Fin 2\<rparr>"

definition ex_pB :: report_row where
  "ex_pB = \<lparr>rp_date_utc = 25773120, rp_campaign_id = ''B'', rp_campaign_name = [],
            rp_total_cost = 0, rp_total_clicks = 0, rp_total_revenue = 7,
            rp_total_profit = 7, rp_avg_cpc = NaN, rp_total_roi = NaN\<rparr>"


section \<open>Properties of safe_div\<close>

lemma np_assign_select:
  "length a = length b \<Longrightarrow> length out = length b \<Longrightarrow>
   np_assign out (map p b) (map2 f (np_select a (map p b)) (np_select b (map p b))) =
   map2 (\<lambda>(x, y) z. if p y then f x y else z) (zip a b) out"
proof (induction b arbitrary: a out)
  case Nil
  then show ?case by simp
next
  case (Cons y b)
  then obtain x a' where a: "a = x # a'" by (cases a) auto
  from Cons obtain z out' where out: "out = z # out'" by (cases out) auto
  from Cons a out show ?case by simp
qed

lemma safe_div_map2:
  assumes "length a = length b"
  shows "safe_div a b = Inr (map2 safe_div1 a b)"
proof -
  have "np_assign (replicate (length a) NaN) (map (\<lambda>y. f_ne y (Fin 0)) b)
          (map2 f_div (np_select a (map (\<lambda>y. f_ne y (Fin 0)) b))
                      (np_select b (map (\<lambda>y. f_ne y (Fin 0)) b)))
        = map2 (\<lambda>(x, y) z. if f_ne y (Fin 0) then f_div x y else z) (zip a b)
            (replicate (length a) NaN)"
    using assms by (intro np_assign_select) simp_all
  also have "\<dots> = map2 safe_div1 a b"
    using assms
    by (intro nth_equalityI) (simp_all add: safe_div1_def)
  finally show ?thesis
    using assms by (simp add: safe_div_def)
qed

lemma safe_div1_zero: "safe_div1 x (Fin 0) = NaN"
  by (simp add: safe_div1_def)

lemma safe_div1_Fin: "y \<noteq> 0 \<Longrightarrow> safe_div1 (Fin x) (Fin y) = Fin (x / y)"
  by (simp add: safe_div1_def)

lemma safe_div1_NaN_left: "safe_div1 NaN y = NaN"
  by (simp add: safe_div1_def)

lemma safe_div1_NaN_right: "safe_div1 x NaN = NaN"
  by (cases x) (simp_all add: safe_div1_def)

text \<open>
  Claim C2. On two arrays of the same length \<open>safe_div\<close> raises nothing and returns an
  array of that length whose element at each position depends on the two operands at
  that position only: it is NaN where the denominator is zero (whatever the numerator,
  zero and NaN included), the exact quotient where both operands are numbers and the
  denominator is not zero (so zero for a zero numerator), and NaN where either operand
  is NaN.
\<close>

theorem safe_div_elementwise:
  assumes "length a = length b"
  shows "\<exists>out. safe_div a b = Inr out \<and> length out = length a \<and>
           (\<forall>i<length a.
              (b ! i = Fin 0 \<longrightarrow> out ! i = NaN) \<and>
              (\<forall>x y. a ! i = Fin x \<and> b ! i = Fin y \<and> y \<noteq> 0 \<longrightarrow> out ! i = Fin (x / y)) \<and>
              (\<forall>y. a ! i = Fin 0 \<and> b ! i = Fin y \<and> y \<noteq> 0 \<longrightarrow> out ! i = Fin 0) \<and>
              (a ! i = NaN \<or> b ! i = NaN \<longrightarrow> out ! i = NaN))"
proof -
  let ?out = "map2 safe_div1 a b"
  have "safe_div a b = Inr ?out"
    using assms by (rule safe_div_map2)
  moreover have "length ?out = length a"
    using assms by simp
  moreover have "\<forall>i<length a.
      (b ! i = Fin 0 \<longrightarrow> ?out ! i = NaN) \<and>
      (\<forall>x y. a ! i = Fin x \<and> b ! i = Fin y \<and> y \<noteq> 0 \<longrightarrow> ?out ! i = Fin (x / y)) \<and>
      (\<forall>y. a ! i = Fin 0 \<and> b ! i = Fin y \<and> y \<noteq> 0 \<longrightarrow> ?out ! i = Fin 0) \<and>
      (a ! i = NaN \<or> b ! i = NaN \<longrightarrow> ?out ! i = NaN)"
    using assms
    by (auto simp: safe_div1_zero safe_div1_Fin safe_div1_NaN_left safe_div1_NaN_right)
  ultimately show ?thesis by blast
qed

theorem safe_div_elementwise_witness:
  "length [Fin 0, Fin 1, NaN, Fin 6, Fin 0] = length [Fin 0, Fin 2, Fin 3, NaN, Fin 5] \<and>
   safe_div [Fin 0, Fin 1, NaN, Fin 6, Fin 0] [Fin 0, Fin 2, Fin 3, NaN, Fin 5]
     = Inr [NaN, Fin (1 / 2), NaN, NaN, Fin 0]"
proof -
  have len: "length [Fin 0, Fin 1, NaN, Fin 6, Fin 0] = length [Fin 0, Fin 2, Fin 3, NaN, Fin 5]"
    by simp
  obtain out where out:
    "safe_div [Fin 0, Fin 1, NaN, Fin 6, Fin 0] [Fin 0, Fin 2, Fin 3, NaN, Fin 5] = Inr out"
    using safe_div_elementwise [OF len] by blast
  have "safe_div [Fin 0, Fin 1, NaN, Fin 6, Fin 0] [Fin 0, Fin 2, Fin 3, NaN, Fin 5]
          = Inr [NaN, Fin (1 / 2), NaN, NaN, Fin 0]"
    by (simp add: safe_div_def)
  with len out show ?thesis by simp
qed

section \<open>The calculations never fail\<close>

lemma zip_map_map_same: "zip (map g xs) (map h xs) = map (\<lambda>x. (g x, h x)) xs"
  by (induction xs) simp_all

lemma zip_same_map: "zip xs (map h xs) = map (\<lambda>x. (x, h x)) xs"
  by (induction xs) simp_all

lemma calculations_eq:
  "calculations js = Inr (map (\<lambda>j. add_metrics j (metrics j)) js)"
proof -
  let ?rev = "map (\<lambda>j. Fin (j_total_revenue j)) js"
  let ?cost = "map (\<lambda>j. Fin (j_total_cost j)) js"
  let ?clicks = "map (\<lambda>j. Fin (j_total_clicks j)) js"
  let ?cpc = "map (\<lambda>j. safe_div1 (Fin (j_total_cost j)) (Fin (j_total_clicks j))) js"
  let ?uv = "map (\<lambda>j. safe_div1 (Fin (j_total_revenue j)) (Fin (j_total_clicks j))) js"
  have a: "safe_div ?cost ?clicks = Inr ?cpc"
    by (simp add: safe_div_map2 zip_map_map_same)
  have b: "safe_div ?rev ?clicks = Inr ?uv"
    by (simp add: safe_div_map2 zip_map_map_same)
  have c: "safe_div ?uv ?cpc = Inr (map (\<lambda>j. snd (metrics j)) js)"
    by (simp add: safe_div_map2 zip_map_map_same metrics_def)
  have d: "map2 add_metrics js (zip ?cpc (map (\<lambda>j. snd (metrics j)) js))
           = map (\<lambda>j. add_metrics j (metrics j)) js"
    by (simp add: zip_map_map_same zip_same_map metrics_def)
  show ?thesis
    unfolding calculations_def Let_def
    by (simp only: a b c bind_e_def sum.case d)
qed

section \<open>groupby and merge on unique keys\<close>

lemma set_group_keys: "set (group_keys key rows) = {k. \<exists>r\<in>set rows. key r = Some k}"
  by (force simp: group_keys_def map_filter_def)

lemma distinct_group_keys: "distinct (group_keys key rows)"
  by (simp add: group_keys_def)

lemma sorted_group_keys: "sorted (group_keys key rows)"
  by (simp add: group_keys_def)

lemma filter_key_map:
  assumes "distinct ks" and "\<And>k. kf (F k) = k"
  shows "filter (\<lambda>l. kf l = k) (map F ks) = (if k \<in> set ks then [F k] else [])"
  using assms(1) by (induction ks) (auto simp: assms(2) filter_empty_conv)

lemma filter_key_find:
  assumes "distinct (map kf L)"
  shows "filter (\<lambda>l. kf l = k) L = (case find (\<lambda>l. kf l = k) L of None \<Rightarrow> [] | Some l \<Rightarrow> [l])"
  using assms
proof (induction L)
  case Nil
  then show ?case by simp
next
  case (Cons a L)
  show ?case
  proof (cases "kf a = k")
    case True
    from Cons.prems have "kf a \<notin> kf ` set L" by simp
    with True have "\<forall>x\<in>set L. kf x \<noteq> k" by blast
    then have "filter (\<lambda>l. kf l = k) L = []"
      by (simp add: filter_empty_conv)
    with True show ?thesis by simp
  next
    case False
    with Cons show ?thesis by simp
  qed
qed

lemma find_None_key: "find (\<lambda>l. kf l = k) L = None \<longleftrightarrow> k \<notin> set (map kf L)"
  by (auto simp: find_None_iff)

lemma concat_map_singleton: "(\<And>x. x \<in> set xs \<Longrightarrow> f x = [g x]) \<Longrightarrow> concat (map f xs) = map g xs"
  by (induction xs) simp_all

lemma merge_outer_unique:
  assumes "distinct (map kl L)" and "distinct (map kr R)"
  shows "merge_outer kl kr L R =
         map (\<lambda>k. (k, find (\<lambda>l. kl l = k) L, find (\<lambda>r. kr r = k) R))
             (sort (remdups (map kl L @ map kr R)))"
  unfolding merge_outer_def
proof (rule concat_map_singleton)
  fix k assume "k \<in> set (sort (remdups (map kl L @ map kr R)))"
  then have k: "k \<in> set (map kl L) \<or> k \<in> set (map kr R)" by auto
  have l: "filter (\<lambda>l. kl l = k) L = (case find (\<lambda>l. kl l = k) L of None \<Rightarrow> [] | Some l \<Rightarrow> [l])"
    using assms(1) by (rule filter_key_find)
  have r: "filter (\<lambda>r. kr r = k) R = (case find (\<lambda>r. kr r = k) R of None \<Rightarrow> [] | Some r \<Rightarrow> [r])"
    using assms(2) by (rule filter_key_find)
  from k have "find (\<lambda>l. kl l = k) L \<noteq> None \<or> find (\<lambda>r. kr r = k) R \<noteq> None"
    by (simp only: find_None_key) blast
  then show "(let ls = filter (\<lambda>l. kl l = k) L; rs = filter (\<lambda>r. kr r = k) R
              in if rs = [] then map (\<lambda>l. (k, Some l, None)) ls
                 else if ls = [] then map (\<lambda>r. (k, None, Some r)) rs
                 else concat (map (\<lambda>l. map (\<lambda>r. (k, Some l, Some r)) rs) ls))
             = [(k, find (\<lambda>l. kl l = k) L, find (\<lambda>r. kr r = k) R)]"
    unfolding Let_def l r by (auto split: option.splits)
qed

lemma merge_left_unique:
  assumes "distinct (map kr R)"
  shows "merge_left kl kr L R = map (\<lambda>l. (l, find (\<lambda>r. kr r = kl l) R)) L"
  unfolding merge_left_def
proof (rule concat_map_singleton)
  fix l assume "l \<in> set L"
  have r: "filter (\<lambda>r. kr r = kl l) R = (case find (\<lambda>r. kr r = kl l) R of None \<Rightarrow> [] | Some r \<Rightarrow> [r])"
    using assms by (rule filter_key_find)
  show "(let rs = filter (\<lambda>r. kr r = kl l) R in if rs = [] then [(l, None)] else map (\<lambda>r. (l, Some r)) rs)
        = [(l, find (\<lambda>r. kr r = kl l) R)]"
    unfolding Let_def r by (auto split: option.splits)
qed

lemma map_key_groupby:
  assumes "\<And>k g. kf (agg k g) = k"
  shows "map kf (groupby_agg key agg rows) = group_keys key rows"
  by (simp add: groupby_agg_def assms comp_def)

lemma find_groupby:
  assumes "\<And>k g. kf (agg k g) = k"
  shows "find (\<lambda>a. kf a = k) (groupby_agg key agg rows) =
         (if k \<in> set (group_keys key rows) then Some (agg k (group_rows key rows k)) else None)"
proof -
  have "filter (\<lambda>a. kf a = k) (groupby_agg key agg rows) =
        (if k \<in> set (group_keys key rows) then [agg k (group_rows key rows k)] else [])"
    unfolding groupby_agg_def
    by (rule filter_key_map) (simp_all add: distinct_group_keys assms)
  moreover have "distinct (map kf (groupby_agg key agg rows))"
    by (simp add: map_key_groupby assms distinct_group_keys)
  ultimately show ?thesis
    using filter_key_find [of kf "groupby_agg key agg rows" k]
    by (auto split: option.splits if_splits)
qed

lemma group_rows_empty: "k \<notin> set (group_keys key rows) \<Longrightarrow> group_rows key rows k = []"
  by (auto simp: set_group_keys group_rows_def filter_empty_conv)

section \<open>The joins, key by key\<close>

lemma cd_key_cost_daily: "map cd_key (cost_daily cost) = group_keys cost_day_key cost"
  unfolding cost_daily_def by (rule map_key_groupby) (simp add: cd_key_def)

lemma rd_key_rev_daily: "map rd_key (rev_daily rv) = group_keys rev_day_key rv"
  unfolding rev_daily_def by (rule map_key_groupby) (simp add: rd_key_def)

lemma min_skipna_Nil: "min_skipna [] = None"
  by (simp add: min_skipna_def map_filter_def)

lemma reconcile_eq:
  "reconcile (cost_daily cost) (rev_daily rv) = map (joined_of cost rv) (day_keys cost rv)"
proof -
  have fc: "find (\<lambda>a. cd_key a = k) (cost_daily cost) =
        (if k \<in> set (group_keys cost_day_key cost)
         then Some \<lparr>cd_date_utc = fst k, cd_campaign_id = snd k,
                cd_campaign_name = min_skipna (map c_campaign_name (group_rows cost_day_key cost k)),
                cd_total_cost = sum_list (map c_cost (group_rows cost_day_key cost k)),
                cd_total_clicks = sum_list (map c_clicks (group_rows cost_day_key cost k))\<rparr>
         else None)" for k
    unfolding cost_daily_def by (rule find_groupby) (simp add: cd_key_def)
  have fr: "find (\<lambda>a. rd_key a = k) (rev_daily rv) =
        (if k \<in> set (group_keys rev_day_key rv)
         then Some \<lparr>rd_date_utc = fst k, rd_campaign_id = snd k,
                rd_total_revenue = sum_list (map r_revenue (group_rows rev_day_key rv k))\<rparr>
         else None)" for k
    unfolding rev_daily_def by (rule find_groupby) (simp add: rd_key_def)
  have row: "fill_joined (k, find (\<lambda>a. cd_key a = k) (cost_daily cost),
                           find (\<lambda>a. rd_key a = k) (rev_daily rv)) = joined_of cost rv k" for k
    unfolding fc fr
    by (simp add: fill_joined_def joined_of_def fillna_def group_rows_empty min_skipna_Nil)
  have "merge_outer cd_key rd_key (cost_daily cost) (rev_daily rv) =
        map (\<lambda>k. (k, find (\<lambda>a. cd_key a = k) (cost_daily cost),
                      find (\<lambda>a. rd_key a = k) (rev_daily rv))) (day_keys cost rv)"
    by (simp add: merge_outer_unique cd_key_cost_daily rd_key_rev_daily distinct_group_keys
        day_keys_def)
  then show ?thesis
    by (simp add: reconcile_def comp_def row)
qed




section \<open>The hourly columns and the whole report, row by row\<close>

lemma group_rows_Some: "group_rows (\<lambda>x. Some (f x)) xs k = filter (\<lambda>x. f x = k) xs"
  by (simp add: group_rows_def)

lemma find_pos_hours:
  "find (\<lambda>p. fst p = k) (pos_hours h) =
     (if k \<in> set (group_keys (\<lambda>x. Some (h_day_key x)) (filter (\<lambda>x. h_profit x > 0) h))
      then Some (k, length (filter (\<lambda>x. h_profit x > 0) (buckets h k))) else None)"
proof -
  have "filter (\<lambda>x. h_day_key x = k) (filter (\<lambda>x. h_profit x > 0) h)
        = filter (\<lambda>x. h_profit x > 0) (buckets h k)"
    by (simp add: buckets_def conj_commute)
  then show ?thesis
    unfolding pos_hours_def
    by (subst find_groupby) (simp_all add: group_rows_Some)
qed

lemma find_avg_hourly_rev:
  "find (\<lambda>p. fst p = k) (avg_hourly_rev h) =
     (if k \<in> set (group_keys (\<lambda>x. Some (h_day_key x)) h)
      then Some (k, mean (map h_revenue (buckets h k))) else None)"
  unfolding avg_hourly_rev_def
  by (subst find_groupby) (simp_all add: group_rows_Some buckets_def)

lemma buckets_empty_iff:
  "buckets h k = [] \<longleftrightarrow> k \<notin> set (group_keys (\<lambda>x. Some (h_day_key x)) h)"
  by (auto simp: buckets_def set_group_keys filter_empty_conv)

lemma pos_buckets_empty:
  "k \<notin> set (group_keys (\<lambda>x. Some (h_day_key x)) (filter (\<lambda>x. h_profit x > 0) h))
   \<Longrightarrow> filter (\<lambda>x. h_profit x > 0) (buckets h k) = []"
  by (auto simp: buckets_def set_group_keys filter_empty_conv)

lemma hourly_columns_eq:
  "hourly_columns cost rv report = map (\<lambda>r. (r, hourly_of (h_join cost rv) (rp_key r))) report"
proof -
  let ?h = "h_join cost rv"
  have d1: "distinct (map fst (pos_hours ?h))"
    unfolding pos_hours_def by (simp add: map_key_groupby distinct_group_keys)
  have d2: "distinct (map fst (avg_hourly_rev ?h))"
    unfolding avg_hourly_rev_def by (simp add: map_key_groupby distinct_group_keys)
  have p: "int (fillna 0 (map_option snd (find (\<lambda>p. fst p = k) (pos_hours ?h))))
           = fst (hourly_of ?h k)" for k
    by (simp add: find_pos_hours hourly_of_def fillna_def pos_buckets_empty)
  have a: "fillna 0 (map_option snd (find (\<lambda>p. fst p = k) (avg_hourly_rev ?h)))
           = snd (hourly_of ?h k)" for k
    by (simp add: find_avg_hourly_rev hourly_of_def fillna_def buckets_empty_iff)
  show ?thesis
    unfolding hourly_columns_def Let_def
    by (simp add: merge_left_unique d1 d2 comp_def p a)
qed

lemma build_report_eq:
  "build_report wh df dt cost0 rev0 =
     (let cost = filter_cost (floor_D df) (floor_D dt) cost0;
          rv = filter_rev (floor_D df) (floor_D dt) rev0
      in Inr (sort_key (\<lambda>x. (date x, campaign_id x))
           (map (\<lambda>r. format_row (r, if wh then Some (hourly_of (h_join cost rv) (rp_key r)) else None))
                (report_rows cost rv))))"
  unfolding build_report_def Let_def
  by (simp add: reconcile_eq calculations_eq bind_e_def hourly_columns_eq comp_def report_rows_def)

section \<open>The rows of the written table\<close>

lemma main_Inr:
  assumes "main a cost_in rev_in = Inr out"
  obtains cost rv where "parse_est_to_utc_cost cost_in = Inr cost"
    and "parse_est_to_utc_rev rev_in = Inr rv"
    and "build_report (hourly a) (date_from a) (date_to a) cost rv = Inr out"
  using assms unfolding main_def bind_e_def by (auto split: sum.splits)

lemma rp_key_add_metrics: "rp_key (add_metrics (joined_of cost rv k) m) = k"
  by (simp add: rp_key_def add_metrics_def joined_of_def)

lemma build_report_out:
  "build_report wh df dt cost0 rev0 =
     Inr (sort_key (\<lambda>x. (date x, campaign_id x))
           (map (out_row_of wh (filter_cost (floor_D df) (floor_D dt) cost0)
                               (filter_rev (floor_D df) (floor_D dt) rev0))
                (day_keys (filter_cost (floor_D df) (floor_D dt) cost0)
                          (filter_rev (floor_D df) (floor_D dt) rev0))))"
  unfolding build_report_eq Let_def report_rows_def out_row_of_def
  by (simp add: comp_def rp_key_add_metrics cong del: if_weak_cong)

lemma build_report_rows:
  assumes "build_report wh df dt cost0 rev0 = Inr out" and "x \<in> set out"
  obtains k where "k \<in> set (day_keys (filter_cost (floor_D df) (floor_D dt) cost0)
                                    (filter_rev (floor_D df) (floor_D dt) rev0))"
    and "x = out_row_of wh (filter_cost (floor_D df) (floor_D dt) cost0)
                           (filter_rev (floor_D df) (floor_D dt) rev0) k"
  using assms unfolding build_report_out by auto

lemma build_report_has_row:
  assumes "build_report wh df dt cost0 rev0 = Inr out"
    and "k \<in> set (day_keys (filter_cost (floor_D df) (floor_D dt) cost0)
                             (filter_rev (floor_D df) (floor_D dt) rev0))"
  shows "out_row_of wh (filter_cost (floor_D df) (floor_D dt) cost0)
                       (filter_rev (floor_D df) (floor_D dt) rev0) k \<in> set out"
  using assms unfolding build_report_out by auto

lemma day_keys_iff:
  "k \<in> set (day_keys cost rv) \<longleftrightarrow>
     (\<exists>r\<in>set cost. cost_day_key r = Some k) \<or> (\<exists>r\<in>set rv. rev_day_key r = Some k)"
  by (auto simp: day_keys_def set_group_keys)

lemma out_row_of_fields:
  "date (out_row_of wh cost rv k) = strftime_date (fst k)"
  "campaign_id (out_row_of wh cost rv k) = snd k"
  "campaign_name (out_row_of wh cost rv k) = j_campaign_name (joined_of cost rv k)"
  "total_revenue (out_row_of wh cost rv k) = j_total_revenue (joined_of cost rv k)"
  "total_cost (out_row_of wh cost rv k) = j_total_cost (joined_of cost rv k)"
  "total_clicks (out_row_of wh cost rv k) = j_total_clicks (joined_of cost rv k)"
  "total_profit (out_row_of wh cost rv k) =
     j_total_revenue (joined_of cost rv k) - j_total_cost (joined_of cost rv k)"
  "avg_cpc (out_row_of wh cost rv k) = fst (metrics (joined_of cost rv k))"
  "total_roi (out_row_of wh cost rv k) = snd (metrics (joined_of cost rv k))"
  "hourly_avg_revenue (out_row_of wh cost rv k) =
     (if wh then Some (snd (hourly_of (h_join cost rv) k)) else None)"
  "positive_profit_hours (out_row_of wh cost rv k) =
     (if wh then Some (fst (hourly_of (h_join cost rv) k)) else None)"
  by (simp_all add: out_row_of_def format_row_def add_metrics_def joined_of_def)

lemma total_roi_row:
  assumes "build_report wh df dt cost0 rev0 = Inr out" and "x \<in> set out"
  shows "total_roi x = safe_div1 (safe_div1 (Fin (total_revenue x)) (Fin (total_clicks x)))
                                 (safe_div1 (Fin (total_cost x)) (Fin (total_clicks x)))"
proof -
  from assms obtain k where
    x: "x = out_row_of wh (filter_cost (floor_D df) (floor_D dt) cost0)
                          (filter_rev (floor_D df) (floor_D dt) rev0) k"
    by (rule build_report_rows)
  show ?thesis
    unfolding x by (simp add: out_row_of_fields metrics_def)
qed

section \<open>The claims\<close>

subsection \<open>The end-to-end example\<close>

text \<open>
  Claim C1, as amended. The cost feed has the one row \<open>campaign_id=A, campaign_name=Ads,
  clicks=10, cost=5.0, data_date=12/31/18 19:00\<close>, the revenue feed the one row
  \<open>campaign_id=A, revenue=20.0, data_date=12/31/18 19:00\<close>, the window is 2019-01-01 to
  2019-01-01 and hourly mode is off. The written table has exactly one row:
  \<open>date=2019/01/01, campaignId=A, campaignName=Ads, totalRevenue=20.0, totalCost=5.0,
  totalProfit=15.0, totalClicks=10.0, avgCpc=0.5\<close> and \<open>totalRoi=4.0\<close>, the ratio of the
  revenue per click 2.0 to the cost per click 0.5.
\<close>

theorem end_to_end_example:
  "main \<lparr>date_from = utc_timestamp 2019 1 1, date_to = utc_timestamp 2019 1 1, hourly = False\<rparr>
     [\<lparr>csv_campaign_id = Some ''A'', csv_campaign_name = Some ''Ads'', csv_clicks = Some 10,
       csv_cost = Some 5, csv_data_date = ''12/31/18 19:00''\<rparr>]
     [\<lparr>rcsv_campaign_id = Some ''A'', rcsv_revenue = Some 20, rcsv_data_date = ''12/31/18 19:00''\<rparr>]
   = Inr [\<lparr>date = ''2019/01/01'', campaign_id = ''A'', campaign_name = ''Ads'',
           total_revenue = 20, total_cost = 5, total_profit = 15, total_clicks = 10,
           total_roi = Fin 4, avg_cpc = Fin (1 / 2),
           hourly_avg_revenue = None, positive_profit_hours = None\<rparr>]"
  by code_simp

text \<open>The claim as it is written gives \<open>totalRoi=1.0\<close>; that is not the table.\<close>

theorem end_to_end_example_roi_is_not_one:
  "main \<lparr>date_from = utc_timestamp 2019 1 1, date_to = utc_timestamp 2019 1 1, hourly = False\<rparr>
     [\<lparr>csv_campaign_id = Some ''A'', csv_campaign_name = Some ''Ads'', csv_clicks = Some 10,
       csv_cost = Some 5, csv_data_date = ''12/31/18 19:00''\<rparr>]
     [\<lparr>rcsv_campaign_id = Some ''A'', rcsv_revenue = Some 20, rcsv_data_date = ''12/31/18 19:00''\<rparr>]
   \<noteq> Inr [\<lparr>date = ''2019/01/01'', campaign_id = ''A'', campaign_name = ''Ads'',
           total_revenue = 20, total_cost = 5, total_profit = 15, total_clicks = 10,
           total_roi = Fin 1, avg_cpc = Fin (1 / 2),
           hourly_avg_revenue = None, positive_profit_hours = None\<rparr>]"
  by code_simp

subsection \<open>ROI by the double division\<close>

lemma run_zero_clicks:
  "main \<lparr>date_from = utc_timestamp 2019 1 1, date_to = utc_timestamp 2019 1 1, hourly = False\<rparr>
     [\<lparr>csv_campaign_id = Some ''A'', csv_campaign_name = Some ''Ads'', csv_clicks = Some 0,
       csv_cost = Some 5, csv_data_date = ''12/31/18 19:00''\<rparr>]
     [\<lparr>rcsv_campaign_id = Some ''A'', rcsv_revenue = Some 20, rcsv_data_date = ''12/31/18 19:00''\<rparr>]
   = Inr [\<lparr>date = ''2019/01/01'', campaign_id = ''A'', campaign_name = ''Ads'',
           total_revenue = 20, total_cost = 5, total_profit = 15, total_clicks = 0,
           total_roi = NaN, avg_cpc = NaN,
           hourly_avg_revenue = None, positive_profit_hours = None\<rparr>]"
  by code_simp

text \<open>
  Claim C3. In every table \<open>main\<close> writes, the \<open>total_roi\<close> column is
  \<open>safe_div(safe_div(total_revenue, total_clicks), safe_div(total_cost, total_clicks))\<close>
  of the table's own columns: the ratio of revenue per click to cost per click. (In the
  run above, with no clicks, it is NaN and not the direct ratio 20 / 5.)
\<close>

theorem total_roi_double_division:
  assumes "main a cost_in rev_in = Inr out"
  shows "\<exists>uv cpc.
           safe_div (map (\<lambda>x. Fin (total_revenue x)) out) (map (\<lambda>x. Fin (total_clicks x)) out) = Inr uv \<and>
           safe_div (map (\<lambda>x. Fin (total_cost x)) out) (map (\<lambda>x. Fin (total_clicks x)) out) = Inr cpc \<and>
           safe_div uv cpc = Inr (map total_roi out)"
proof -
  from assms obtain cost rv where
    b: "build_report (hourly a) (date_from a) (date_to a) cost rv = Inr out"
    by (rule main_Inr)
  let ?uv = "map (\<lambda>x. safe_div1 (Fin (total_revenue x)) (Fin (total_clicks x))) out"
  let ?cpc = "map (\<lambda>x. safe_div1 (Fin (total_cost x)) (Fin (total_clicks x))) out"
  have 1: "safe_div (map (\<lambda>x. Fin (total_revenue x)) out) (map (\<lambda>x. Fin (total_clicks x)) out) = Inr ?uv"
    by (simp add: safe_div_map2 zip_map_map_same)
  have 2: "safe_div (map (\<lambda>x. Fin (total_cost x)) out) (map (\<lambda>x. Fin (total_clicks x)) out) = Inr ?cpc"
    by (simp add: safe_div_map2 zip_map_map_same)
  have "map (\<lambda>x. safe_div1 (safe_div1 (Fin (total_revenue x)) (Fin (total_clicks x)))
                              (safe_div1 (Fin (total_cost x)) (Fin (total_clicks x)))) out
        = map total_roi out"
    by (rule map_cong) (simp_all add: total_roi_row [OF b])
  then have 3: "safe_div ?uv ?cpc = Inr (map total_roi out)"
    by (simp add: safe_div_map2 zip_map_map_same)
  from 1 2 3 show ?thesis by blast
qed

theorem total_roi_double_division_witness:
  "main \<lparr>date_from = utc_timestamp 2019 1 1, date_to = utc_timestamp 2019 1 1, hourly = False\<rparr>
     [\<lparr>csv_campaign_id = Some ''A'', csv_campaign_name = Some ''Ads'', csv_clicks = Some 0,
       csv_cost = Some 5, csv_data_date = ''12/31/18 19:00''\<rparr>]
     [\<lparr>rcsv_campaign_id = Some ''A'', rcsv_revenue = Some 20, rcsv_data_date = ''12/31/18 19:00''\<rparr>]
   = Inr [\<lparr>date = ''2019/01/01'', campaign_id = ''A'', campaign_name = ''Ads'',
           total_revenue = 20, total_cost = 5, total_profit = 15, total_clicks = 0,
           total_roi = NaN, avg_cpc = NaN,
           hourly_avg_revenue = None, positive_profit_hours = None\<rparr>] \<and>
   (\<exists>uv cpc. safe_div [Fin 20] [Fin 0] = Inr uv \<and> safe_div [Fin 5] [Fin 0] = Inr cpc \<and>
              safe_div uv cpc = Inr [NaN])"
  using total_roi_double_division [OF run_zero_clicks] run_zero_clicks by simp

section \<open>Rows of the parsed feeds\<close>

lemma parse_cost_rows:
  assumes "parse_est_to_utc_cost df = Inr cost" and "r \<in> set cost"
  shows "c_date_utc r = floor_D (c_dt_utc r) \<and> c_hour_utc r = floor_h (c_dt_utc r)"
proof -
  from assms(1) obtain dt where "cost = map2 cost_row_of df dt"
    unfolding parse_est_to_utc_cost_def bind_e_def by (auto split: sum.splits)
  with assms(2) obtain x t where "r = cost_row_of x t"
    by (auto simp: in_set_zip)
  then show ?thesis by (simp add: cost_row_of_def)
qed

lemma parse_rev_rows:
  assumes "parse_est_to_utc_rev df = Inr rv" and "r \<in> set rv"
  shows "r_date_utc r = floor_D (r_dt_utc r) \<and> r_hour_utc r = floor_h (r_dt_utc r)"
proof -
  from assms(1) obtain dt where "rv = map2 rev_row_of df dt"
    unfolding parse_est_to_utc_rev_def bind_e_def by (auto split: sum.splits)
  with assms(2) obtain x t where "r = rev_row_of x t"
    by (auto simp: in_set_zip)
  then show ?thesis by (simp add: rev_row_of_def)
qed

lemma cost_day_key_Some: "cost_day_key r = Some k \<longleftrightarrow> c_date_utc r = fst k \<and> c_campaign_id r = Some (snd k)"
  by (cases k; cases "c_campaign_id r") (auto simp: cost_day_key_def)

lemma rev_day_key_Some: "rev_day_key r = Some k \<longleftrightarrow> r_date_utc r = fst k \<and> r_campaign_id r = Some (snd k)"
  by (cases k; cases "r_campaign_id r") (auto simp: rev_day_key_def)

lemma metrics_no_cost:
  assumes "j_total_cost j = 0" and "j_total_clicks j = 0"
  shows "metrics j = (NaN, NaN)"
  using assms by (simp add: metrics_def safe_div1_def)

section \<open>The example run, stage by stage\<close>

lemma ex_parse_cost: "parse_est_to_utc_cost ex_cost = Inr [ex_c1, ex_c2, ex_c3]"
  by code_simp

lemma ex_parse_rev: "parse_est_to_utc_rev ex_rev = Inr [ex_r1, ex_rev_B]"
  by code_simp

lemma ex_window: "floor_D (date_from ex_args) = 25771680" "floor_D (date_to ex_args) = 25773120"
  by code_simp+

lemma ex_filter_cost: "filter_cost 25771680 25773120 [ex_c1, ex_c2, ex_c3] = [ex_c1, ex_c2]"
  by code_simp

lemma ex_filter_rev: "filter_rev 25771680 25773120 [ex_r1, ex_rev_B] = [ex_r1, ex_rev_B]"
  by code_simp

lemma ex_cost_daily: "cost_daily [ex_c1, ex_c2] = ex_cd"
  by code_simp

lemma ex_rev_daily: "rev_daily [ex_r1, ex_rev_B] = ex_rd"
  by code_simp

lemma ex_reconcile: "reconcile ex_cd ex_rd = [ex_jA, ex_jB]"
  by code_simp

lemma ex_calculations: "calculations [ex_jA, ex_jB] = Inr [ex_pA, ex_pB]"
  by code_simp


lemma ex_hourly_columns:
  "hourly_columns [ex_c1, ex_c2] [ex_r1, ex_rev_B] [ex_pA, ex_pB] = [(ex_pA, 1, 10), (ex_pB, 1, 7)]"
  by code_simp

lemma ex_format:
  "sort_key (\<lambda>x. (date x, campaign_id x))
     [format_row (ex_pA, Some (1, 10)), format_row (ex_pB, Some (1, 7))] = [ex_row_A, ex_row_B]"
  by code_simp

lemma ex_run: "main ex_args ex_cost ex_rev = Inr [ex_row_A, ex_row_B]"
proof -
  have "build_report True (date_from ex_args) (date_to ex_args) [ex_c1, ex_c2, ex_c3] [ex_r1, ex_rev_B]
        = Inr [ex_row_A, ex_row_B]"
    unfolding build_report_def ex_window Let_def ex_filter_cost ex_filter_rev ex_cost_daily
      ex_rev_daily ex_reconcile ex_calculations
    by (simp only: bind_e_def sum.case if_True ex_hourly_columns list.map prod.case ex_format)
  moreover have "hourly ex_args = True"
    by (simp add: ex_args_def)
  ultimately show ?thesis
    unfolding main_def ex_parse_cost ex_parse_rev by (simp add: bind_e_def)
qed

lemma ex_date_B: "strftime_date 25773120 = ''2019/01/02''"
  by code_simp

subsection \<open>Dates of the written table\<close>

text \<open>
  Claim C10. Whatever the arguments and the two feeds, every row of the table \<open>main\<close>
  writes carries as its date the formatted UTC day \<open>floor_D t\<close> of an instant, and that
  day lies in the window from \<open>date-from\<close> to \<open>date-to\<close>, both ends included: the
  range filter's restriction survives the aggregation, the join, the hourly enrichment
  and the formatting.
\<close>

theorem output_dates_within_window:
  assumes "main a cost_in rev_in = Inr out" and "x \<in> set out"
  shows "\<exists>t. date x = strftime_date (floor_D t) \<and>
             floor_D (date_from a) \<le> floor_D t \<and> floor_D t \<le> floor_D (date_to a)"
proof -
  from assms(1) obtain cost rv where
    pc: "parse_est_to_utc_cost cost_in = Inr cost" and
    pr: "parse_est_to_utc_rev rev_in = Inr rv" and
    b: "build_report (hourly a) (date_from a) (date_to a) cost rv = Inr out"
    by (rule main_Inr)
  let ?cost = "filter_cost (floor_D (date_from a)) (floor_D (date_to a)) cost"
  let ?rv = "filter_rev (floor_D (date_from a)) (floor_D (date_to a)) rv"
  from b assms(2) obtain k where k: "k \<in> set (day_keys ?cost ?rv)"
    and x: "x = out_row_of (hourly a) ?cost ?rv k"
    by (rule build_report_rows)
  from k consider r where "r \<in> set ?cost" "cost_day_key r = Some k"
    | r where "r \<in> set ?rv" "rev_day_key r = Some k"
    unfolding day_keys_iff by blast
  then have "\<exists>t. fst k = floor_D t \<and> floor_D (date_from a) \<le> fst k \<and> fst k \<le> floor_D (date_to a)"
  proof cases
    case 1
    then have "r \<in> set cost" and "floor_D (date_from a) \<le> c_date_utc r"
      and "c_date_utc r \<le> floor_D (date_to a)" and "c_date_utc r = fst k"
      by (simp_all add: filter_cost_def cost_day_key_Some)
    with parse_cost_rows [OF pc] show ?thesis by metis
  next
    case 2
    then have "r \<in> set rv" and "floor_D (date_from a) \<le> r_date_utc r"
      and "r_date_utc r \<le> floor_D (date_to a)" and "r_date_utc r = fst k"
      by (simp_all add: filter_rev_def rev_day_key_Some)
    with parse_rev_rows [OF pr] show ?thesis by metis
  qed
  then show ?thesis
    unfolding x by (auto simp: out_row_of_fields)
qed

theorem output_dates_within_window_witness:
  "main ex_args ex_cost ex_rev = Inr [ex_row_A, ex_row_B] \<and> ex_row_B \<in> set [ex_row_A, ex_row_B] \<and>
   (\<exists>t. date ex_row_B = strftime_date (floor_D t) \<and>
        25771680 \<le> floor_D t \<and> floor_D t \<le> 25773120)"
proof -
  have m: "ex_row_B \<in> set [ex_row_A, ex_row_B]" by simp
  from output_dates_within_window [OF ex_run m]
  have "\<exists>t. date ex_row_B = strftime_date (floor_D t) \<and>
        25771680 \<le> floor_D t \<and> floor_D t \<le> 25773120"
    by (simp only: ex_window)
  with ex_run m show ?thesis by blast
qed

subsection \<open>A campaign with revenue only\<close>

text \<open>
  Claim C6. In every run, when a row of the revenue feed falls on a UTC day of the
  window for a campaign that has no cost row on that day, the written table has a row
  for that day and campaign with \<open>total_cost = 0.0\<close>, an empty \<open>campaign_name\<close>, and
  \<open>avg_cpc\<close> and \<open>total_roi\<close> both NaN.
\<close>

theorem revenue_only_campaign:
  assumes "parse_est_to_utc_cost cost_in = Inr cost"
    and "parse_est_to_utc_rev rev_in = Inr rv"
    and "main a cost_in rev_in = Inr out"
    and "r \<in> set rv" and "r_campaign_id r = Some c"
    and "floor_D (date_from a) \<le> r_date_utc r" and "r_date_utc r \<le> floor_D (date_to a)"
    and "\<forall>x\<in>set cost. \<not> (c_date_utc x = r_date_utc r \<and> c_campaign_id x = Some c)"
  shows "\<exists>x\<in>set out. date x = strftime_date (r_date_utc r) \<and> campaign_id x = c \<and>
           total_cost x = 0 \<and> campaign_name x = [] \<and> avg_cpc x = NaN \<and> total_roi x = NaN"
proof -
  from assms(1,2,3) have
    b: "build_report (hourly a) (date_from a) (date_to a) cost rv = Inr out"
    by (auto elim: main_Inr)
  let ?cost = "filter_cost (floor_D (date_from a)) (floor_D (date_to a)) cost"
  let ?rv = "filter_rev (floor_D (date_from a)) (floor_D (date_to a)) rv"
  let ?k = "(r_date_utc r, c)"
  have "r \<in> set ?rv" and "rev_day_key r = Some ?k"
    using assms(4-7) by (simp_all add: filter_rev_def rev_day_key_Some)
  then have "?k \<in> set (day_keys ?cost ?rv)"
    unfolding day_keys_iff by blast
  with b have mem: "out_row_of (hourly a) ?cost ?rv ?k \<in> set out"
    by (rule build_report_has_row)
  have g: "group_rows cost_day_key ?cost ?k = []"
    using assms(8) by (auto simp: group_rows_def filter_empty_conv cost_day_key_Some filter_cost_def)
  have j: "j_total_cost (joined_of ?cost ?rv ?k) = 0" "j_total_clicks (joined_of ?cost ?rv ?k) = 0"
    "j_campaign_name (joined_of ?cost ?rv ?k) = []"
    by (simp_all add: joined_of_def g min_skipna_Nil fillna_def)
  have "date (out_row_of (hourly a) ?cost ?rv ?k) = strftime_date (r_date_utc r) \<and>
        campaign_id (out_row_of (hourly a) ?cost ?rv ?k) = c \<and>
        total_cost (out_row_of (hourly a) ?cost ?rv ?k) = 0 \<and>
        campaign_name (out_row_of (hourly a) ?cost ?rv ?k) = [] \<and>
        avg_cpc (out_row_of (hourly a) ?cost ?rv ?k) = NaN \<and>
        total_roi (out_row_of (hourly a) ?cost ?rv ?k) = NaN"
    by (simp add: out_row_of_fields j metrics_no_cost)
  with mem show ?thesis by blast
qed

theorem revenue_only_campaign_witness:
  "parse_est_to_utc_rev ex_rev \<noteq> Inl ValueError \<and>
   main ex_args ex_cost ex_rev = Inr [ex_row_A, ex_row_B] \<and>
   r_campaign_id ex_rev_B = Some ''B'' \<and>
   (\<exists>x\<in>set [ex_row_A, ex_row_B]. date x = ''2019/01/02'' \<and> campaign_id x = ''B'' \<and>
       total_cost x = 0 \<and> campaign_name x = [] \<and> avg_cpc x = NaN \<and> total_roi x = NaN)"
proof -
  have 1: "ex_rev_B \<in> set [ex_r1, ex_rev_B]" by simp
  have 2: "r_campaign_id ex_rev_B = Some ''B''" by (simp add: ex_rev_B_def)
  have 3: "floor_D (date_from ex_args) \<le> r_date_utc ex_rev_B"
    "r_date_utc ex_rev_B \<le> floor_D (date_to ex_args)"
    by (simp_all add: ex_window ex_rev_B_def)
  have 4: "\<forall>x\<in>set [ex_c1, ex_c2, ex_c3].
        \<not> (c_date_utc x = r_date_utc ex_rev_B \<and> c_campaign_id x = Some ''B'')"
    by (simp add: ex_rev_B_def ex_c1_def ex_c2_def ex_c3_def)
  from revenue_only_campaign [OF ex_parse_cost ex_parse_rev ex_run 1 2 3 4]
  have "\<exists>x\<in>set [ex_row_A, ex_row_B]. date x = ''2019/01/02'' \<and> campaign_id x = ''B'' \<and>
       total_cost x = 0 \<and> campaign_name x = [] \<and> avg_cpc x = NaN \<and> total_roi x = NaN"
    by (simp only: ex_rev_B_def rev_row.simps ex_date_B)
  with ex_run 2 ex_parse_rev show ?thesis by simp
qed

section \<open>Rows of the daily aggregates and of their join\<close>

lemma j_key_joined_of: "j_key (joined_of cost rv k) = k"
  by (simp add: j_key_def joined_of_def)

lemma j_key_reconcile:
  "map j_key (reconcile (cost_daily cost) (rev_daily rv)) = day_keys cost rv"
  by (simp add: reconcile_eq comp_def j_key_joined_of)

lemma distinct_day_keys: "distinct (day_keys cost rv)"
  by (simp add: day_keys_def)

lemma set_day_keys:
  "set (day_keys cost rv) = set (group_keys cost_day_key cost) \<union> set (group_keys rev_day_key rv)"
  by (simp add: day_keys_def)

lemma cost_daily_row:
  assumes "a \<in> set (cost_daily cost)"
  shows "cd_key a \<in> set (group_keys cost_day_key cost) \<and>
         cd_campaign_name a = min_skipna (map c_campaign_name (group_rows cost_day_key cost (cd_key a))) \<and>
         cd_total_cost a = sum_list (map c_cost (group_rows cost_day_key cost (cd_key a))) \<and>
         cd_total_clicks a = sum_list (map c_clicks (group_rows cost_day_key cost (cd_key a)))"
  using assms unfolding cost_daily_def groupby_agg_def
  by (auto simp: cd_key_def)

lemma rev_daily_row:
  assumes "b \<in> set (rev_daily rv)"
  shows "rd_key b \<in> set (group_keys rev_day_key rv) \<and>
         rd_total_revenue b = sum_list (map r_revenue (group_rows rev_day_key rv (rd_key b)))"
  using assms unfolding rev_daily_def groupby_agg_def
  by (auto simp: rd_key_def)

subsection \<open>The outer join has one row per key\<close>

text \<open>
  Claim C4. For the daily aggregates of any two feeds, the outer join with its
  \<open>fillna\<close> defaults has exactly one row for each (day, campaign) key of the union of the
  two key sets: the keys of its rows are distinct and are exactly that union, so the
  number of rows is the size of the union and at least the larger of the two row counts.
  A row whose key the cost aggregate lacks has \<open>total_cost\<close> and \<open>total_clicks\<close> zero and
  an empty \<open>campaign_name\<close>; a row whose key the revenue aggregate lacks has
  \<open>total_revenue\<close> zero; and each aggregate row's values are in the row of its key.
\<close>

theorem reconciler_one_row_per_key:
  "distinct (map j_key (reconcile (cost_daily cost) (rev_daily rv))) \<and>
   set (map j_key (reconcile (cost_daily cost) (rev_daily rv)))
     = set (map cd_key (cost_daily cost)) \<union> set (map rd_key (rev_daily rv)) \<and>
   length (reconcile (cost_daily cost) (rev_daily rv))
     = card (set (map cd_key (cost_daily cost)) \<union> set (map rd_key (rev_daily rv))) \<and>
   max (length (cost_daily cost)) (length (rev_daily rv))
     \<le> length (reconcile (cost_daily cost) (rev_daily rv)) \<and>
   (\<forall>j\<in>set (reconcile (cost_daily cost) (rev_daily rv)).
      j_key j \<notin> set (map cd_key (cost_daily cost)) \<longrightarrow>
        j_total_cost j = 0 \<and> j_total_clicks j = 0 \<and> j_campaign_name j = []) \<and>
   (\<forall>j\<in>set (reconcile (cost_daily cost) (rev_daily rv)).
      j_key j \<notin> set (map rd_key (rev_daily rv)) \<longrightarrow> j_total_revenue j = 0) \<and>
   (\<forall>a\<in>set (cost_daily cost). \<exists>j\<in>set (reconcile (cost_daily cost) (rev_daily rv)).
      j_key j = cd_key a \<and> j_total_cost j = cd_total_cost a \<and>
      j_total_clicks j = cd_total_clicks a \<and> j_campaign_name j = fillna [] (cd_campaign_name a)) \<and>
   (\<forall>b\<in>set (rev_daily rv). \<exists>j\<in>set (reconcile (cost_daily cost) (rev_daily rv)).
      j_key j = rd_key b \<and> j_total_revenue j = rd_total_revenue b)"
proof -
  let ?J = "reconcile (cost_daily cost) (rev_daily rv)"
  let ?KC = "set (map cd_key (cost_daily cost))"
  let ?KR = "set (map rd_key (rev_daily rv))"
  have kc: "?KC = set (group_keys cost_day_key cost)" by (simp only: cd_key_cost_daily)
  have kr: "?KR = set (group_keys rev_day_key rv)" by (simp only: rd_key_rev_daily)
  have keys: "map j_key ?J = day_keys cost rv" by (rule j_key_reconcile)
  have 1: "distinct (map j_key ?J)"
    unfolding keys by (rule distinct_day_keys)
  have 2: "set (map j_key ?J) = ?KC \<union> ?KR"
    unfolding keys kc kr by (rule set_day_keys)
  have "length ?J = length (map j_key ?J)" by simp
  also have "\<dots> = card (set (map j_key ?J))"
    using 1 by (simp only: distinct_card)
  finally have 3: "length ?J = card (?KC \<union> ?KR)"
    unfolding 2 .
  have "length (cost_daily cost) = card ?KC"
    using distinct_group_keys [of cost_day_key cost]
    by (metis cd_key_cost_daily distinct_card length_map)
  moreover have "length (rev_daily rv) = card ?KR"
    using distinct_group_keys [of rev_day_key rv]
    by (metis rd_key_rev_daily distinct_card length_map)
  moreover have "card ?KC \<le> card (?KC \<union> ?KR)" "card ?KR \<le> card (?KC \<union> ?KR)"
    by (simp_all add: card_mono)
  ultimately have 4: "max (length (cost_daily cost)) (length (rev_daily rv)) \<le> length ?J"
    unfolding 3 by simp
  have 5: "\<forall>j\<in>set ?J. j_key j \<notin> ?KC \<longrightarrow>
             j_total_cost j = 0 \<and> j_total_clicks j = 0 \<and> j_campaign_name j = []"
    unfolding kc reconcile_eq
    by (auto simp: j_key_joined_of) (simp_all add: joined_of_def group_rows_empty min_skipna_Nil fillna_def)
  have 6: "\<forall>j\<in>set ?J. j_key j \<notin> ?KR \<longrightarrow> j_total_revenue j = 0"
    unfolding kr reconcile_eq
    by (auto simp: j_key_joined_of) (simp_all add: joined_of_def group_rows_empty)
  have 7: "\<forall>a\<in>set (cost_daily cost). \<exists>j\<in>set ?J.
      j_key j = cd_key a \<and> j_total_cost j = cd_total_cost a \<and>
      j_total_clicks j = cd_total_clicks a \<and> j_campaign_name j = fillna [] (cd_campaign_name a)"
  proof
    fix a assume a: "a \<in> set (cost_daily cost)"
    from cost_daily_row [OF a] have "cd_key a \<in> set (day_keys cost rv)"
      by (simp add: set_day_keys)
    then have "joined_of cost rv (cd_key a) \<in> set ?J"
      unfolding reconcile_eq by simp
    moreover have "j_key (joined_of cost rv (cd_key a)) = cd_key a \<and>
        j_total_cost (joined_of cost rv (cd_key a)) = cd_total_cost a \<and>
        j_total_clicks (joined_of cost rv (cd_key a)) = cd_total_clicks a \<and>
        j_campaign_name (joined_of cost rv (cd_key a)) = fillna [] (cd_campaign_name a)"
      using cost_daily_row [OF a] by (simp add: j_key_joined_of) (simp add: joined_of_def)
    ultimately show "\<exists>j\<in>set ?J.
      j_key j = cd_key a \<and> j_total_cost j = cd_total_cost a \<and>
      j_total_clicks j = cd_total_clicks a \<and> j_campaign_name j = fillna [] (cd_campaign_name a)"
      by blast
  qed
  have 8: "\<forall>b\<in>set (rev_daily rv). \<exists>j\<in>set ?J.
      j_key j = rd_key b \<and> j_total_revenue j = rd_total_revenue b"
  proof
    fix b assume b: "b \<in> set (rev_daily rv)"
    from rev_daily_row [OF b] have "rd_key b \<in> set (day_keys cost rv)"
      by (simp add: set_day_keys)
    then have "joined_of cost rv (rd_key b) \<in> set ?J"
      unfolding reconcile_eq by simp
    moreover have "j_key (joined_of cost rv (rd_key b)) = rd_key b \<and>
        j_total_revenue (joined_of cost rv (rd_key b)) = rd_total_revenue b"
      using rev_daily_row [OF b] by (simp add: j_key_joined_of) (simp add: joined_of_def)
    ultimately show "\<exists>j\<in>set ?J. j_key j = rd_key b \<and> j_total_revenue j = rd_total_revenue b"
      by blast
  qed
  from 1 2 3 4 5 6 7 8 show ?thesis by blast
qed

theorem reconciler_one_row_per_key_witness:
  "reconcile (cost_daily [ex_c1, ex_c2]) (rev_daily [ex_r1, ex_rev_B]) = [ex_jA, ex_jB] \<and>
   length [ex_jA, ex_jB] = card (set (map cd_key ex_cd) \<union> set (map rd_key ex_rd)) \<and>
   j_key ex_jB \<notin> set (map cd_key ex_cd) \<and>
   j_total_cost ex_jB = 0 \<and> j_total_clicks ex_jB = 0 \<and> j_campaign_name ex_jB = []"
proof -
  have r: "reconcile (cost_daily [ex_c1, ex_c2]) (rev_daily [ex_r1, ex_rev_B]) = [ex_jA, ex_jB]"
    by (simp only: ex_cost_daily ex_rev_daily ex_reconcile)
  note t = reconciler_one_row_per_key [of "[ex_c1, ex_c2]" "[ex_r1, ex_rev_B]",
      unfolded ex_cost_daily ex_rev_daily ex_reconcile]
  from t have len: "length [ex_jA, ex_jB] = card (set (map cd_key ex_cd) \<union> set (map rd_key ex_rd))"
    by blast
  from t have b: "\<forall>j\<in>set [ex_jA, ex_jB]. j_key j \<notin> set (map cd_key ex_cd) \<longrightarrow>
      j_total_cost j = 0 \<and> j_total_clicks j = 0 \<and> j_campaign_name j = []"
    by blast
  have nk: "j_key ex_jB \<notin> set (map cd_key ex_cd)"
    by (simp add: j_key_def ex_jB_def ex_cd_def cd_key_def)
  from b nk have "j_total_cost ex_jB = 0 \<and> j_total_clicks ex_jB = 0 \<and> j_campaign_name ex_jB = []"
    by simp
  with r len nk show ?thesis by blast
qed

section \<open>The hourly join\<close>




subsection \<open>The two hourly columns\<close>



section \<open>Sums over hours and sums over days\<close>













subsection \<open>Hourly and daily aggregates agree\<close>




section \<open>The aggregates do not depend on the row order\<close>








lemma string_order_examples: "''Abs'' < ''Ads''" "''Ab'' < ''Abs''" "''B'' < ''a''"
  by simp_all

subsection \<open>The campaign name of a group\<close>



section \<open>Localising a column of wall-clock times\<close>










subsection \<open>The hour after the fall-back\<close>




end
